theory Spec2Isabelle
  imports Main "HOL-Library.Multiset" "HOL-Library.Product_Lexorder"
begin

section \<open>Data model\<close>

text \<open>
  The program \<^verbatim>\<open>image_to_text.py\<close> reads a folder of images, orders them by a
  creation time and appends the recognised text of each one to an output file.
  Everything the program reads from outside (the directory listing, what
  \<^verbatim>\<open>Image.open\<close>, \<^verbatim>\<open>_getexif\<close>, \<^verbatim>\<open>stat\<close> and \<^verbatim>\<open>pytesseract\<close> answer for a path) is data of
  the model; everything it writes (the output file, the console) is state.

  An exception is a value of type \<open>error\<close>; \<open>str_of\<close> is Python's \<^verbatim>\<open>str(e)\<close>.
\<close>

datatype error =
    UnidentifiedImageError string
  | OSError string
  | AttributeError string
  | TypeError string
  | ValueError string
  | TesseractError string

fun str_of :: "error \<Rightarrow> string" where
  "str_of (UnidentifiedImageError m) = m"
| "str_of (OSError m) = m"
| "str_of (AttributeError m) = m"
| "str_of (TypeError m) = m"
| "str_of (ValueError m) = m"
| "str_of (TesseractError m) = m"

text \<open>
  The value stored under an EXIF tag is a string for ASCII-typed tags and something else
  (a number, bytes, a tuple) otherwise. The dictionary returned by \<^verbatim>\<open>_getexif\<close> is kept as
  the list of its items in iteration order; its keys are distinct, so inside
  \<^verbatim>\<open>for tag_id in exif\<close> the lookup \<^verbatim>\<open>exif[tag_id]\<close> is the value paired with the key.
\<close>

datatype exif_value = Str string | NonStr

type_synonym exif_dict = "(nat \<times> exif_value) list"

text \<open>
  An opened image: what \<^verbatim>\<open>img._getexif()\<close> answers (it raises for image classes without the
  method, returns \<^verbatim>\<open>None\<close> or a dictionary otherwise) and what
  \<^verbatim>\<open>pytesseract.image_to_string(img)\<close> answers.
\<close>

record image =
  getexif :: "error + exif_dict option"
  image_to_string :: "error + string"

text \<open>
  A directory entry as the program sees it through its \<^verbatim>\<open>Path\<close>: the final path component,
  whether it is a directory, the answer of \<^verbatim>\<open>Image.open\<close>, and the answer of
  \<^verbatim>\<open>datetime.fromtimestamp(path.stat().st_mtime)\<close>. That answer is an exception when
  \<^verbatim>\<open>stat\<close> raises (the file is gone) and also when the conversion raises (the file is there,
  with a modification time outside the years a \<^verbatim>\<open>datetime\<close> holds). The type \<open>'t\<close> is that of
  naive \<^verbatim>\<open>datetime\<close> values, linearly ordered.
\<close>

record 't path =
  name :: string
  is_dir :: bool
  image_open :: "error + image"
  stat_mtime :: "error + 't"

text \<open>
  The input folder: its path as given to the program and the answer of \<^verbatim>\<open>iterdir()\<close>, in
  the order the file system enumerates it.
\<close>

record 't folder =
  folder_path :: string
  iterdir :: "error + 't path list"

text \<open>
  Library functions the program calls with fixed arguments and whose code is not part of the
  repository are parameters: the table \<^verbatim>\<open>PIL.ExifTags.TAGS\<close>,
  \<^verbatim>\<open>datetime.strptime(_, '%Y:%m:%d %H:%M:%S')\<close> (\<open>None\<close> is \<^verbatim>\<open>ValueError\<close>) and
  \<^verbatim>\<open>_.strftime('%Y-%m-%d %H:%M:%S')\<close>.
\<close>

record 't pylib =
  TAGS :: "nat \<Rightarrow> string option"
  strptime :: "string \<Rightarrow> 't option"
  strftime :: "'t \<Rightarrow> string"

text \<open>
  What a run changes: the content of the output file (\<open>None\<close> while it does not exist) and
  the lines printed. The field \<open>resolutions\<close> records every invocation of
  \<^verbatim>\<open>get_image_creation_time\<close>, by the name of the file it was invoked on, in order. Creating
  the output directory and appending to the output file are taken to succeed.
\<close>

record run_state =
  output_file :: "string option"
  console :: "string list"
  resolutions :: "string list"

definition content :: "run_state \<Rightarrow> string" where
  "content s = (case output_file s of None \<Rightarrow> [] | Some c \<Rightarrow> c)"

section \<open>Timestamp resolution\<close>

text \<open>\<^verbatim>\<open>tag = TAGS.get(tag_id, tag_id)\<close>: the tag's name, or the numeric id itself.\<close>

datatype tag = TagName string | TagId nat

definition tag_of :: "'t pylib \<Rightarrow> nat \<Rightarrow> tag" where
  "tag_of L tag_id = (case TAGS L tag_id of Some n \<Rightarrow> TagName n | None \<Rightarrow> TagId tag_id)"

definition recognized :: "'t pylib \<Rightarrow> nat \<Rightarrow> bool" where
  "recognized L tag_id \<longleftrightarrow>
     tag_of L tag_id \<in> set [TagName ''DateTimeOriginal'', TagName ''DateTime'']"

text \<open>
  The loop over the dictionary (lines 22 to 30). It ends in one of three ways: it returns the
  parsed instant (\<open>Inr (Some t)\<close>), it runs to the end (\<open>Inr None\<close>), or \<^verbatim>\<open>strptime\<close> raises
  \<^verbatim>\<open>TypeError\<close> on a value that is not a string, which the inner handler for \<^verbatim>\<open>ValueError\<close>
  does not catch.
\<close>

fun scan_exif :: "'t pylib \<Rightarrow> exif_dict \<Rightarrow> error + 't option" where
  "scan_exif L [] = Inr None"
| "scan_exif L ((tag_id, v) # rest) =
     (if recognized L tag_id then
        (case v of
           Str date_str \<Rightarrow>
             (case strptime L date_str of
                Some t \<Rightarrow> Inr (Some t)
              | None \<Rightarrow> scan_exif L rest)
         | NonStr \<Rightarrow> Inl (TypeError ''strptime() argument 1 must be str''))
      else scan_exif L rest)"

text \<open>The body of the outer \<^verbatim>\<open>try\<close> (lines 17 to 30).\<close>

definition exif_time :: "'t pylib \<Rightarrow> 't path \<Rightarrow> error + 't option" where
  "exif_time L image_path =
     (case image_open image_path of
        Inl e \<Rightarrow> Inl e
      | Inr img \<Rightarrow>
          (case getexif img of
             Inl e \<Rightarrow> Inl e
           | Inr None \<Rightarrow> Inr None
           | Inr (Some exif) \<Rightarrow> if exif = [] then Inr None else scan_exif L exif))"

text \<open>
  \<^verbatim>\<open>get_image_creation_time\<close>: every exception of the body is swallowed
  (\<^verbatim>\<open>except Exception: pass\<close>); the fallback on line 35 is outside the \<^verbatim>\<open>try\<close>, so an
  exception of \<^verbatim>\<open>stat\<close> reaches the caller.
\<close>

definition get_image_creation_time :: "'t pylib \<Rightarrow> 't path \<Rightarrow> error + ('t \<times> string)" where
  "get_image_creation_time L image_path =
     (case exif_time L image_path of
        Inr (Some t) \<Rightarrow> Inr (t, ''EXIF'')
      | _ \<Rightarrow>
          (case stat_mtime image_path of
             Inl e \<Rightarrow> Inl e
           | Inr m \<Rightarrow> Inr (m, ''mtime'')))"

section \<open>Enumeration and ordering\<close>

text \<open>
  \<^verbatim>\<open>PurePath.suffix\<close> as pathlib defines it: with \<open>i\<close> the last index of a dot in the name,
  the suffix is \<^verbatim>\<open>name[i:]\<close> when \<open>0 < i < len(name) - 1\<close> and the empty string otherwise.
  \<^verbatim>\<open>str.lower\<close> is modelled on the letters A to Z; other characters are left as they are.
\<close>

fun rfind :: "char \<Rightarrow> string \<Rightarrow> nat option" where
  "rfind c [] = None"
| "rfind c (x # xs) =
     (case rfind c xs of
        Some i \<Rightarrow> Some (Suc i)
      | None \<Rightarrow> if x = c then Some 0 else None)"

definition suffix :: "string \<Rightarrow> string" where
  "suffix nm =
     (case rfind (CHR ''.'') nm of
        None \<Rightarrow> []
      | Some i \<Rightarrow> if 0 < i \<and> i + 1 < length nm then drop i nm else [])"

definition lower_char :: "char \<Rightarrow> char" where
  "lower_char c =
     (case map_of (zip ''ABCDEFGHIJKLMNOPQRSTUVWXYZ'' ''abcdefghijklmnopqrstuvwxyz'') c of
        Some l \<Rightarrow> l
      | None \<Rightarrow> c)"

definition lower :: "string \<Rightarrow> string" where
  "lower s = map lower_char s"

definition supported_formats :: "string list" where
  "supported_formats = [''.png'', ''.jpg'', ''.jpeg'', ''.tiff'', ''.bmp'']"

definition supported :: "'t path \<Rightarrow> bool" where
  "supported file_path \<longleftrightarrow> lower (suffix (name file_path)) \<in> set supported_formats"

text \<open>The loop of lines 42 to 44, building \<^verbatim>\<open>image_files\<close>.\<close>

fun collect_images :: "'t path list \<Rightarrow> 't path list" where
  "collect_images [] = []"
| "collect_images (file_path # rest) =
     (if supported file_path then file_path # collect_images rest else collect_images rest)"

text \<open>
  \<^verbatim>\<open>sorted(image_files, key=...)\<close> first calls the key function once on every element, in list
  order, and then sorts the elements stably by these keys. An exception of the key function
  ends the call. \<open>sort_keys\<close> is the first phase; the stable sort of the pairs by their key
  is \<^const>\<open>sort_key\<close>.
\<close>

fun sort_keys :: "'t pylib \<Rightarrow> 't path list \<Rightarrow> string list
    \<Rightarrow> (error + ('t \<times> 't path) list) \<times> string list" where
  "sort_keys L [] calls = (Inr [], calls)"
| "sort_keys L (x # xs) calls =
     (case get_image_creation_time L x of
        Inl e \<Rightarrow> (Inl e, calls @ [name x])
      | Inr r \<Rightarrow>
          (case sort_keys L xs (calls @ [name x]) of
             (Inl e, calls') \<Rightarrow> (Inl e, calls')
           | (Inr keyed, calls') \<Rightarrow> (Inr ((fst r, x) # keyed), calls')))"

definition get_image_files :: "('t::linorder) pylib \<Rightarrow> 't folder \<Rightarrow> run_state
    \<Rightarrow> (error + 't path list) \<times> run_state" where
  "get_image_files L d s =
     (case iterdir d of
        Inl e \<Rightarrow> (Inl e, s)
      | Inr listing \<Rightarrow>
          (case sort_keys L (collect_images listing) (resolutions s) of
             (Inl e, calls) \<Rightarrow> (Inl e, s\<lparr>resolutions := calls\<rparr>)
           | (Inr keyed, calls) \<Rightarrow>
               (Inr (map snd (sort_key fst keyed)), s\<lparr>resolutions := calls\<rparr>)))"

section \<open>Processing\<close>

definition block :: "string \<Rightarrow> string \<Rightarrow> string \<Rightarrow> string \<Rightarrow> string" where
  "block nm time_source formatted_time text =
     [CHR 0x0A] @ ''--- Text from '' @ nm @ '' ('' @ time_source @ '' time: ''
       @ formatted_time @ '') ---'' @ [CHR 0x0A] @ text @ [CHR 0x0A]"

definition processed_line :: "string \<Rightarrow> string \<Rightarrow> string" where
  "processed_line nm time_source =
     ''Processed: '' @ nm @ '' (using '' @ time_source @ '' timestamp)''"

definition error_line :: "string \<Rightarrow> error \<Rightarrow> string" where
  "error_line nm e = ''Error processing '' @ nm @ '': '' @ str_of e"

definition report_error :: "'t path \<Rightarrow> error \<Rightarrow> run_state \<Rightarrow> run_state" where
  "report_error image_path e s = s\<lparr>console := console s @ [error_line (name image_path) e]\<rparr>"

text \<open>One iteration of the loop of lines 57 to 76, with its \<^verbatim>\<open>try\<close> and handler.\<close>

definition process_one :: "'t pylib \<Rightarrow> 't path \<Rightarrow> run_state \<Rightarrow> run_state" where
  "process_one L image_path s =
     (let s1 = s\<lparr>resolutions := resolutions s @ [name image_path]\<rparr> in
      case get_image_creation_time L image_path of
        Inl e \<Rightarrow> report_error image_path e s1
      | Inr (timestamp, time_source) \<Rightarrow>
          (let formatted_time = strftime L timestamp in
           case image_open image_path of
             Inl e \<Rightarrow> report_error image_path e s1
           | Inr img \<Rightarrow>
               (case image_to_string img of
                  Inl e \<Rightarrow> report_error image_path e s1
                | Inr text \<Rightarrow>
                    s1\<lparr>output_file := Some (content s1
                          @ block (name image_path) time_source formatted_time text),
                       console := console s1
                          @ [processed_line (name image_path) time_source]\<rparr>)))"

fun process_loop :: "'t pylib \<Rightarrow> 't path list \<Rightarrow> run_state \<Rightarrow> run_state" where
  "process_loop L [] s = s"
| "process_loop L (image_path # rest) s = process_loop L rest (process_one L image_path s)"

definition process_images :: "('t::linorder) pylib \<Rightarrow> 't folder \<Rightarrow> run_state
    \<Rightarrow> (error + unit) \<times> run_state" where
  "process_images L d s =
     (case get_image_files L d s of
        (Inl e, s1) \<Rightarrow> (Inl e, s1)
      | (Inr image_files, s1) \<Rightarrow>
          if image_files = [] then
            (Inr (), s1\<lparr>console := console s1
               @ [''No supported image files found in '' @ folder_path d]\<rparr>)
          else (Inr (), process_loop L image_files s1))"

text \<open>
  The script body (lines 78 to 88): the output file is created empty when it does not exist
  (\<^verbatim>\<open>touch(exist_ok=True)\<close>) and left as it is otherwise; then the batch runs.
\<close>

definition main :: "('t::linorder) pylib \<Rightarrow> 't folder \<Rightarrow> run_state
    \<Rightarrow> (error + unit) \<times> run_state" where
  "main L d s = process_images L d (s\<lparr>output_file := Some (content s)\<rparr>)"

section \<open>Observations used in the statements\<close>

text \<open>
  An entry of the metadata dictionary lets the scan go on (\<open>skipped\<close>) when its tag is not
  one of the two recognized names, or when it is and its string does not parse. It yields an
  instant (\<open>parsable_entry\<close>) when its tag is recognized and its string parses. \<open>metadata\<close>
  is the dictionary the scan sees (empty when the image does not open, when \<^verbatim>\<open>_getexif\<close>
  raises or when it returns \<^verbatim>\<open>None\<close>), and an image has a capture time when some entry of
  its metadata is parsable.
\<close>

definition skipped :: "'t pylib \<Rightarrow> nat \<times> exif_value \<Rightarrow> bool" where
  "skipped L e =
     (case e of
        (tag_id, Str date_str) \<Rightarrow> recognized L tag_id \<longrightarrow> strptime L date_str = None
      | (tag_id, NonStr) \<Rightarrow> \<not> recognized L tag_id)"


definition metadata :: "'t path \<Rightarrow> exif_dict" where
  "metadata image_path =
     (case image_open image_path of
        Inl e \<Rightarrow> []
      | Inr img \<Rightarrow> (case getexif img of Inr (Some exif) \<Rightarrow> exif | _ \<Rightarrow> []))"


text \<open>
  \<open>timestamp_of\<close> is the sort key of line 47, \<^verbatim>\<open>get_image_creation_time(x)[0]\<close>.
\<close>

definition timestamp_of :: "'t pylib \<Rightarrow> 't path \<Rightarrow> 't option" where
  "timestamp_of L image_path =
     (case get_image_creation_time L image_path of Inl e \<Rightarrow> None | Inr r \<Rightarrow> Some (fst r))"

text \<open>
  The outcome of the body of the \<^verbatim>\<open>try\<close> of one iteration (lines 58 to 73): the exception
  that ends it, or the provenance label together with the text appended to the output file.
  \<open>console_line\<close> and \<open>written\<close> are the line printed and the text appended by that
  iteration.
\<close>

definition attempt :: "'t pylib \<Rightarrow> 't path \<Rightarrow> error + (string \<times> string)" where
  "attempt L image_path =
     (case get_image_creation_time L image_path of
        Inl e \<Rightarrow> Inl e
      | Inr (timestamp, time_source) \<Rightarrow>
          (case image_open image_path of
             Inl e \<Rightarrow> Inl e
           | Inr img \<Rightarrow>
               (case image_to_string img of
                  Inl e \<Rightarrow> Inl e
                | Inr text \<Rightarrow>
                    Inr (time_source,
                         block (name image_path) time_source (strftime L timestamp) text))))"


definition written :: "'t pylib \<Rightarrow> 't path \<Rightarrow> string" where
  "written L image_path =
     (case attempt L image_path of Inl e \<Rightarrow> [] | Inr (time_source, b) \<Rightarrow> b)"



text \<open>
  The text a whole run appends: what the output file holds after a run that starts without
  one.
\<close>

definition batch_output :: "('t::linorder) pylib \<Rightarrow> 't folder \<Rightarrow> string" where
  "batch_output L d = content (snd (main L d \<lparr>output_file = None, console = [], resolutions = []\<rparr>))"

section \<open>A concrete library and concrete folders\<close>

text \<open>
  The theorems below hold for every table of tag names, every parser and every formatter.
  Concrete runs need concrete ones. A naive \<^verbatim>\<open>datetime\<close> is the tuple of its fields (year,
  month, day, hour, minute, second, microsecond), compared lexicographically as Python
  compares them. \<open>PIL_TAGS\<close> holds the entries of Pillow's table around the two names the
  program looks for. \<open>canonical_strptime\<close> decides the 19-character form
  \<^verbatim>\<open>YYYY:MM:DD HH:MM:SS\<close> with two-digit fields and calendar-valid values, and rejects every
  other string; \<open>canonical_strftime\<close> prints \<^verbatim>\<open>YYYY-MM-DD HH:MM:SS\<close> for years of four
  digits.
\<close>

type_synonym datetime = "nat \<times> nat \<times> nat \<times> nat \<times> nat \<times> nat \<times> nat"

definition PIL_TAGS :: "nat \<Rightarrow> string option" where
  "PIL_TAGS = map_of [(271, ''Make''), (306, ''DateTime''),
     (36867, ''DateTimeOriginal''), (36868, ''DateTimeDigitized'')]"

definition digit :: "char \<Rightarrow> nat option" where
  "digit = map_of (zip ''0123456789'' [0, 1, 2, 3, 4, 5, 6, 7, 8, 9])"

fun number :: "nat \<Rightarrow> string \<Rightarrow> nat option" where
  "number acc [] = Some acc"
| "number acc (c # cs) = (case digit c of None \<Rightarrow> None | Some v \<Rightarrow> number (10 * acc + v) cs)"

definition days_in_month :: "nat \<Rightarrow> nat \<Rightarrow> nat" where
  "days_in_month y m =
     (if m = 2 then (if y mod 4 = 0 \<and> (y mod 100 \<noteq> 0 \<or> y mod 400 = 0) then 29 else 28)
      else if m \<in> set [4, 6, 9, 11] then 30 else 31)"

definition canonical_strptime :: "string \<Rightarrow> datetime option" where
  "canonical_strptime s =
     (if length s = 19 \<and> map (\<lambda>i. s ! i) [4, 7, 10, 13, 16] = '':: ::'' then
        (case map (number 0) [take 4 s, take 2 (drop 5 s), take 2 (drop 8 s),
                              take 2 (drop 11 s), take 2 (drop 14 s), take 2 (drop 17 s)] of
           [Some y, Some m, Some d, Some H, Some M, Some S] \<Rightarrow>
             if 1 \<le> y \<and> 1 \<le> m \<and> m \<le> 12 \<and> 1 \<le> d \<and> d \<le> days_in_month y m
                \<and> H < 24 \<and> M < 60 \<and> S < 60
             then Some (y, m, d, H, M, S, 0) else None
         | _ \<Rightarrow> None)
      else None)"

definition pad2 :: "nat \<Rightarrow> string" where
  "pad2 n = [''0123456789'' ! (n div 10 mod 10), ''0123456789'' ! (n mod 10)]"

definition canonical_strftime :: "datetime \<Rightarrow> string" where
  "canonical_strftime t =
     (case t of (y, m, d, H, M, S, us) \<Rightarrow>
        pad2 (y div 100) @ pad2 y @ ''-'' @ pad2 m @ ''-'' @ pad2 d @ '' ''
          @ pad2 H @ '':'' @ pad2 M @ '':'' @ pad2 S)"

definition example_lib :: "datetime pylib" where
  "example_lib = \<lparr>TAGS = PIL_TAGS, strptime = canonical_strptime, strftime = canonical_strftime\<rparr>"

text \<open>
  A photograph whose metadata carries both date tags, in the order in which Pillow builds the
  dictionary (the tags of the main directory first, those of the Exif directory after them).
\<close>

definition camera_photo :: "datetime path" where
  "camera_photo =
     \<lparr>name = ''IMG_0001.JPG'', is_dir = False,
      image_open = Inr \<lparr>getexif = Inr (Some [(271, Str ''Canon''),
                                              (306, Str ''2021:05:01 10:00:00''),
                                              (36867, Str ''2019:03:04 05:06:07'')]),
                        image_to_string = Inr ''page one''\<rparr>,
      stat_mtime = Inr (2022, 1, 1, 0, 0, 0, 0)\<rparr>"

text \<open>
  A scan without metadata, a text file, a photograph taken with an unset camera clock, a
  subdirectory, a subdirectory whose name ends in \<^verbatim>\<open>.png\<close>, a file that does not decode, and
  an image whose date is written with the wrong separators.
\<close>

definition scan_png :: "datetime path" where
  "scan_png =
     \<lparr>name = ''a.png'', is_dir = False,
      image_open = Inr \<lparr>getexif = Inr None, image_to_string = Inr ''scanned page''\<rparr>,
      stat_mtime = Inr (2020, 6, 1, 12, 0, 0, 0)\<rparr>"

definition notes_txt :: "datetime path" where
  "notes_txt =
     \<lparr>name = ''b.txt'', is_dir = False,
      image_open = Inl (UnidentifiedImageError ''cannot identify image file''),
      stat_mtime = Inr (2020, 7, 1, 9, 30, 0, 0)\<rparr>"

definition unset_clock_jpg :: "datetime path" where
  "unset_clock_jpg =
     \<lparr>name = ''c.JPG'', is_dir = False,
      image_open = Inr \<lparr>getexif = Inr (Some [(306, Str ''0000:00:00 00:00:00''),
                                              (36867, Str ''2019:03:04 05:06:07'')]),
                        image_to_string = Inr ''page two''\<rparr>,
      stat_mtime = Inr (2022, 1, 1, 0, 0, 0, 0)\<rparr>"

definition subdir :: "datetime path" where
  "subdir =
     \<lparr>name = ''d'', is_dir = True,
      image_open = Inl (OSError ''[Errno 21] Is a directory''),
      stat_mtime = Inr (2020, 8, 1, 0, 0, 0, 0)\<rparr>"

definition scans_dir :: "datetime path" where
  "scans_dir =
     \<lparr>name = ''scans.png'', is_dir = True,
      image_open = Inl (OSError ''[Errno 21] Is a directory''),
      stat_mtime = Inr (2020, 8, 1, 0, 0, 0, 0)\<rparr>"

definition broken_jpeg :: "datetime path" where
  "broken_jpeg =
     \<lparr>name = ''broken.jpeg'', is_dir = False,
      image_open = Inl (UnidentifiedImageError ''cannot identify image file''),
      stat_mtime = Inr (2020, 6, 1, 12, 0, 0, 0)\<rparr>"

definition bad_date_tiff :: "datetime path" where
  "bad_date_tiff =
     \<lparr>name = ''e.tiff'', is_dir = False,
      image_open = Inr \<lparr>getexif = Inr (Some [(306, Str ''2021-05-01 10:00:00'')]),
                        image_to_string = Inr ''page three''\<rparr>,
      stat_mtime = Inr (2020, 6, 1, 12, 0, 0, 0)\<rparr>"

text \<open>
  A photograph whose \<^verbatim>\<open>DateTime\<close> field is stored with a numeric type, so that its value is
  not a string, followed by a well-formed \<^verbatim>\<open>DateTimeOriginal\<close>; and a scan that exists, is
  readable and decodes, but whose modification time lies beyond the years a \<^verbatim>\<open>datetime\<close>
  holds, so that \<^verbatim>\<open>datetime.fromtimestamp\<close> raises.
\<close>

definition wrong_type_jpg :: "datetime path" where
  "wrong_type_jpg =
     \<lparr>name = ''g.jpg'', is_dir = False,
      image_open = Inr \<lparr>getexif = Inr (Some [(306, NonStr),
                                              (36867, Str ''2019:03:04 05:06:07'')]),
                        image_to_string = Inr ''page four''\<rparr>,
      stat_mtime = Inr (2022, 1, 1, 0, 0, 0, 0)\<rparr>"

definition far_future_png :: "datetime path" where
  "far_future_png =
     \<lparr>name = ''f.png'', is_dir = False,
      image_open = Inr \<lparr>getexif = Inr None, image_to_string = Inr ''page five''\<rparr>,
      stat_mtime = Inl (ValueError ''year 60000 is out of range'')\<rparr>"

definition spec_folder :: "datetime folder" where
  "spec_folder = \<lparr>folder_path = ''images'',
     iterdir = Inr [scan_png, notes_txt, unset_clock_jpg, subdir]\<rparr>"

definition mixed_folder :: "datetime folder" where
  "mixed_folder = \<lparr>folder_path = ''images'',
     iterdir = Inr [camera_photo, scan_png, broken_jpeg]\<rparr>"

definition no_images_folder :: "datetime folder" where
  "no_images_folder = \<lparr>folder_path = ''images'', iterdir = Inr [notes_txt, subdir]\<rparr>"

definition scans_folder :: "datetime folder" where
  "scans_folder = \<lparr>folder_path = ''images'', iterdir = Inr [subdir, scans_dir]\<rparr>"


text \<open>
  Two starting states: no output file yet, and an output file left by an earlier run.
\<close>

definition fresh :: run_state where
  "fresh = \<lparr>output_file = None, console = [], resolutions = []\<rparr>"

definition earlier :: run_state where
  "earlier = \<lparr>output_file = Some ''earlier text'', console = [], resolutions = []\<rparr>"

section \<open>The scan of the metadata\<close>

lemma scan_exif_skip:
  "list_all (skipped L) pre \<Longrightarrow> scan_exif L (pre @ rest) = scan_exif L rest"
  by (induction pre) (auto simp: skipped_def split: exif_value.splits)

lemma scan_exif_first:
  assumes "list_all (skipped L) pre" "recognized L tag_id" "strptime L date_str = Some t"
  shows "scan_exif L (pre @ (tag_id, Str date_str) # post) = Inr (Some t)"
  using assms by (simp add: scan_exif_skip)



lemma resolve_scan:
  assumes "image_open p = Inr img" "getexif img = Inr (Some exif)" "scan_exif L exif = Inr (Some t)"
  shows "get_image_creation_time L p = Inr (t, ''EXIF'')"
proof -
  from assms(3) have "exif \<noteq> []" by auto
  with assms show ?thesis by (simp add: get_image_creation_time_def exif_time_def)
qed

text \<open>
  A recognized tag whose value is not a string ends the scan with \<^verbatim>\<open>TypeError\<close>, which the
  outer handler swallows: the entries after it are not looked at and the modification time
  is returned.
\<close>

lemma scan_exif_non_string:
  assumes "list_all (skipped L) pre" "recognized L tag_id"
  shows "scan_exif L (pre @ (tag_id, NonStr) # post)
           = Inl (TypeError ''strptime() argument 1 must be str'')"
  using assms by (simp add: scan_exif_skip)

lemma resolve_non_string:
  assumes "image_open p = Inr img"
    and "getexif img = Inr (Some (pre @ (tag_id, NonStr) # post))"
    and "list_all (skipped L) pre" "recognized L tag_id"
    and "stat_mtime p = Inr m"
  shows "get_image_creation_time L p = Inr (m, ''mtime'')"
  using assms scan_exif_non_string [OF assms(3,4), of post]
  by (simp add: get_image_creation_time_def exif_time_def)

section \<open>Keys, sorting and the processing loop\<close>

lemma collect_images_filter: "collect_images listing = filter supported listing"
  by (induction listing) auto

lemma sort_keys_Cons:
  assumes "sort_keys L (x # xs) calls = (Inr keyed, calls')"
  obtains r keyed0 where "get_image_creation_time L x = Inr r"
    and "sort_keys L xs (calls @ [name x]) = (Inr keyed0, calls')"
    and "keyed = (fst r, x) # keyed0"
  using assms by (auto split: sum.splits prod.splits)

lemma sort_keys_result:
  "sort_keys L xs calls = (Inr keyed, calls') \<Longrightarrow>
     keyed = map (\<lambda>p. (the (timestamp_of L p), p)) xs
     \<and> (\<forall>p\<in>set xs. timestamp_of L p \<noteq> None)
     \<and> calls' = calls @ map name xs"
proof (induction xs arbitrary: calls keyed)
  case Nil
  then show ?case by simp
next
  case (Cons x xs)
  from Cons.prems obtain r keyed0 where r: "get_image_creation_time L x = Inr r"
    and rest: "sort_keys L xs (calls @ [name x]) = (Inr keyed0, calls')"
    and keyed: "keyed = (fst r, x) # keyed0"
    by (rule sort_keys_Cons)
  from r have "timestamp_of L x = Some (fst r)" by (simp add: timestamp_of_def)
  with Cons.IH [OF rest] keyed show ?case by simp
qed

lemma sort_keys_indep: "fst (sort_keys L xs c) = fst (sort_keys L xs c')"
proof (induction xs arbitrary: c c')
  case Nil
  show ?case by simp
next
  case (Cons x xs)
  show ?case
  proof (cases "get_image_creation_time L x")
    case (Inl e)
    then show ?thesis by simp
  next
    case (Inr r)
    obtain a cs where A: "sort_keys L xs (c @ [name x]) = (a, cs)" by force
    obtain a' cs' where B: "sort_keys L xs (c' @ [name x]) = (a', cs')" by force
    from Cons.IH [of "c @ [name x]" "c' @ [name x]"] A B have "a = a'" by simp
    with Inr A B show ?thesis by (cases a') simp_all
  qed
qed

text \<open>
  Sorting the decorated pairs by their key and dropping the keys is sorting the elements by
  the key function.
\<close>

lemma insort_key_decorated:
  "insort_key fst (f x, x) (map (\<lambda>p. (f p, p)) ys) = map (\<lambda>p. (f p, p)) (insort_key f x ys)"
  by (induction ys) auto

lemma sort_key_decorated:
  "map snd (sort_key fst (map (\<lambda>p. (f p, p)) xs)) = sort_key f xs"
proof -
  have "sort_key fst (map (\<lambda>p. (f p, p)) xs) = map (\<lambda>p. (f p, p)) (sort_key f xs)"
    by (induction xs) (simp_all add: insort_key_decorated)
  then show ?thesis by (simp add: comp_def)
qed

lemma get_image_files_result:
  assumes "get_image_files L d s = (Inr ps, s1)"
  shows "\<exists>listing. iterdir d = Inr listing
           \<and> ps = sort_key (\<lambda>p. the (timestamp_of L p)) (collect_images listing)
           \<and> (\<forall>p\<in>set ps. timestamp_of L p \<noteq> None)
           \<and> s1 = s\<lparr>resolutions := resolutions s @ map name (collect_images listing)\<rparr>"
proof -
  from assms obtain listing where l: "iterdir d = Inr listing"
    by (auto simp: get_image_files_def split: sum.splits)
  from assms l obtain keyed calls where
    k: "sort_keys L (collect_images listing) (resolutions s) = (Inr keyed, calls)"
    and ps: "ps = map snd (sort_key fst keyed)" and s1: "s1 = s\<lparr>resolutions := calls\<rparr>"
    by (auto simp: get_image_files_def split: sum.splits prod.splits)
  from sort_keys_result [OF k] ps s1 l show ?thesis
    by (simp add: sort_key_decorated)
qed

lemma get_image_files_state:
  assumes "get_image_files L d s = (r, s1)"
  shows "output_file s1 = output_file s \<and> console s1 = console s"
  using assms by (auto simp: get_image_files_def split: sum.splits prod.splits)

lemma get_image_files_indep:
  "fst (get_image_files L d s) = fst (get_image_files L d s')"
proof (cases "iterdir d")
  case (Inl e)
  then show ?thesis by (simp add: get_image_files_def)
next
  case (Inr listing)
  have "fst (sort_keys L (collect_images listing) (resolutions s))
      = fst (sort_keys L (collect_images listing) (resolutions s'))"
    by (rule sort_keys_indep)
  with Inr show ?thesis
    by (auto simp: get_image_files_def split: sum.splits prod.splits)
qed

text \<open>
  One iteration, in terms of the outcome of its \<^verbatim>\<open>try\<close> body.
\<close>

lemma process_one_attempt:
  "process_one L p s =
     (case attempt L p of
        Inl e \<Rightarrow> s\<lparr>resolutions := resolutions s @ [name p],
                   console := console s @ [error_line (name p) e]\<rparr>
      | Inr (time_source, b) \<Rightarrow>
          s\<lparr>resolutions := resolutions s @ [name p],
            output_file := Some (content s @ b),
            console := console s @ [processed_line (name p) time_source]\<rparr>)"
  by (simp add: process_one_def attempt_def report_error_def content_def Let_def
      split: sum.splits prod.splits)


lemma process_one_content: "content (process_one L p s) = content s @ written L p"
  by (simp add: process_one_attempt written_def content_def split: sum.splits prod.splits)


lemma process_one_output_file:
  "output_file s = Some c \<Longrightarrow> output_file (process_one L p s) = Some (c @ written L p)"
  by (simp add: process_one_attempt written_def content_def split: sum.splits prod.splits)


lemma process_loop_content:
  "content (process_loop L ps s) = content s @ concat (map (written L) ps)"
  by (induction ps arbitrary: s) (simp_all add: process_one_content)


lemma process_loop_output_file:
  "output_file s = Some c \<Longrightarrow>
     output_file (process_loop L ps s) = Some (c @ concat (map (written L) ps))"
  by (induction ps arbitrary: s c) (simp_all add: process_one_output_file)


lemma process_images_output:
  assumes "output_file s = Some c"
  shows "output_file (snd (process_images L d s)) =
     Some (c @ (case fst (get_image_files L d s) of
                  Inl e \<Rightarrow> [] | Inr ps \<Rightarrow> concat (map (written L) ps)))"
proof (cases "get_image_files L d s")
  case (Pair r s1)
  from get_image_files_state [OF Pair] assms have s1: "output_file s1 = Some c" by simp
  show ?thesis
  proof (cases r)
    case (Inl e)
    with Pair s1 show ?thesis by (simp add: process_images_def)
  next
    case (Inr ps)
    with Pair s1 show ?thesis
      by (simp add: process_images_def process_loop_output_file)
  qed
qed





section \<open>The concrete runs\<close>

lemmas example_defs = example_lib_def PIL_TAGS_def canonical_strptime_def digit_def
  days_in_month_def canonical_strftime_def pad2_def

lemmas resolver_defs = get_image_creation_time_def exif_time_def recognized_def tag_of_def

lemmas suffix_defs = supported_def suffix_def lower_def lower_char_def supported_formats_def

lemma resolve_camera_photo:
  "get_image_creation_time example_lib camera_photo = Inr ((2021, 5, 1, 10, 0, 0, 0), ''EXIF'')"
  by (simp add: resolver_defs example_defs camera_photo_def)

lemma resolve_scan_png:
  "get_image_creation_time example_lib scan_png = Inr ((2020, 6, 1, 12, 0, 0, 0), ''mtime'')"
  by (simp add: resolver_defs example_defs scan_png_def)

lemma resolve_broken_jpeg:
  "get_image_creation_time example_lib broken_jpeg = Inr ((2020, 6, 1, 12, 0, 0, 0), ''mtime'')"
  by (simp add: resolver_defs example_defs broken_jpeg_def)

lemma resolve_unset_clock_jpg:
  "get_image_creation_time example_lib unset_clock_jpg = Inr ((2019, 3, 4, 5, 6, 7, 0), ''EXIF'')"
  by (simp add: resolver_defs example_defs unset_clock_jpg_def)

lemma resolve_scans_dir:
  "get_image_creation_time example_lib scans_dir = Inr ((2020, 8, 1, 0, 0, 0, 0), ''mtime'')"
  by (simp add: resolver_defs example_defs scans_dir_def)

lemma supported_examples:
  "supported camera_photo" "supported scan_png" "supported broken_jpeg"
  "supported unset_clock_jpg" "supported scans_dir" "supported bad_date_tiff"
  "\<not> supported notes_txt" "\<not> supported subdir"
  by (simp_all add: suffix_defs camera_photo_def scan_png_def broken_jpeg_def
      unset_clock_jpg_def scans_dir_def bad_date_tiff_def notes_txt_def subdir_def)

lemma timestamp_examples:
  "timestamp_of example_lib camera_photo = Some (2021, 5, 1, 10, 0, 0, 0)"
  "timestamp_of example_lib scan_png = Some (2020, 6, 1, 12, 0, 0, 0)"
  "timestamp_of example_lib broken_jpeg = Some (2020, 6, 1, 12, 0, 0, 0)"
  by (simp_all add: timestamp_of_def resolve_camera_photo resolve_scan_png resolve_broken_jpeg)

lemma attempt_examples:
  "attempt example_lib camera_photo =
     Inr (''EXIF'', block ''IMG_0001.JPG'' ''EXIF'' ''2021-05-01 10:00:00'' ''page one'')"
  "attempt example_lib scan_png =
     Inr (''mtime'', block ''a.png'' ''mtime'' ''2020-06-01 12:00:00'' ''scanned page'')"
  "attempt example_lib broken_jpeg = Inl (UnidentifiedImageError ''cannot identify image file'')"
  by (simp_all add: attempt_def resolve_camera_photo resolve_scan_png resolve_broken_jpeg)
     (simp_all add: camera_photo_def scan_png_def broken_jpeg_def example_defs)


lemma mixed_files:
  "get_image_files example_lib mixed_folder s =
     (Inr [scan_png, broken_jpeg, camera_photo],
      s\<lparr>resolutions := resolutions s @ [''IMG_0001.JPG'', ''a.png'', ''broken.jpeg'']\<rparr>)"
  by (simp add: get_image_files_def mixed_folder_def supported_examples
      resolve_camera_photo resolve_scan_png resolve_broken_jpeg)
     (simp add: camera_photo_def scan_png_def broken_jpeg_def)

lemma spec_files:
  "get_image_files example_lib spec_folder s =
     (Inr [unset_clock_jpg, scan_png], s\<lparr>resolutions := resolutions s @ [''a.png'', ''c.JPG'']\<rparr>)"
  by (simp add: get_image_files_def spec_folder_def supported_examples
      resolve_unset_clock_jpg resolve_scan_png)
     (simp add: unset_clock_jpg_def scan_png_def)

lemma scans_files:
  "get_image_files example_lib scans_folder s =
     (Inr [scans_dir], s\<lparr>resolutions := resolutions s @ [''scans.png'']\<rparr>)"
  by (simp add: get_image_files_def scans_folder_def supported_examples resolve_scans_dir)
     (simp add: scans_dir_def)

lemma mixed_batch_output:
  "batch_output example_lib mixed_folder
     = block ''a.png'' ''mtime'' ''2020-06-01 12:00:00'' ''scanned page''
       @ block ''IMG_0001.JPG'' ''EXIF'' ''2021-05-01 10:00:00'' ''page one''"
  by (simp add: batch_output_def main_def process_images_def mixed_files
      process_loop_content written_def attempt_examples del: process_loop.simps)
     (simp add: content_def)

section \<open>Timestamp resolution: claims C1, C3, C4 and C10\<close>

text \<open>
  Claim C1 says that the instant of \<^verbatim>\<open>DateTimeOriginal\<close> is returned whenever both tags are
  present and parsable, whatever the iteration order. The photograph below carries both; its
  dictionary lists \<^verbatim>\<open>DateTime\<close> first, and the program returns the instant of \<^verbatim>\<open>DateTime\<close>.
\<close>

theorem capture_tag_not_preferred:
  "TAGS example_lib 306 = Some ''DateTime''
   \<and> TAGS example_lib 36867 = Some ''DateTimeOriginal''
   \<and> metadata camera_photo = [(271, Str ''Canon''), (306, Str ''2021:05:01 10:00:00''),
                               (36867, Str ''2019:03:04 05:06:07'')]
   \<and> strptime example_lib ''2021:05:01 10:00:00'' = Some (2021, 5, 1, 10, 0, 0, 0)
   \<and> strptime example_lib ''2019:03:04 05:06:07'' = Some (2019, 3, 4, 5, 6, 7, 0)
   \<and> get_image_creation_time example_lib camera_photo \<noteq> Inr ((2019, 3, 4, 5, 6, 7, 0), ''EXIF'')
   \<and> get_image_creation_time example_lib camera_photo = Inr ((2021, 5, 1, 10, 0, 0, 0), ''EXIF'')"
  by (simp add: resolve_camera_photo)
     (simp add: example_defs metadata_def camera_photo_def)

text \<open>
  Claim C1, amended: when the metadata holds a \<^verbatim>\<open>DateTimeOriginal\<close> entry at position \<open>i\<close> and a
  \<^verbatim>\<open>DateTime\<close> entry at position \<open>j\<close> of the iteration order, both with parsable strings, and no
  other entry carries a recognized tag, the program returns the instant of whichever of the
  two is iterated first, with provenance \<^verbatim>\<open>EXIF\<close>: the capture-specific one exactly when
  \<open>i < j\<close>.
\<close>

theorem first_recognized_tag_wins:
  assumes "image_open p = Inr img" "getexif img = Inr (Some exif)"
    and "i < length exif" "exif ! i = (ko, Str so)"
    and "TAGS L ko = Some ''DateTimeOriginal''" "strptime L so = Some t_orig"
    and "j < length exif" "exif ! j = (kg, Str sg)"
    and "TAGS L kg = Some ''DateTime''" "strptime L sg = Some t_gen"
    and "\<forall>n<length exif. n \<noteq> i \<and> n \<noteq> j \<longrightarrow> \<not> recognized L (fst (exif ! n))"
  shows "get_image_creation_time L p = Inr (if i < j then t_orig else t_gen, ''EXIF'')"
proof -
  have ij: "i \<noteq> j" using assms(4,5,8,9) by auto
  have ro: "recognized L ko" and rg: "recognized L kg"
    using assms(5,9) by (simp_all add: recognized_def tag_of_def)
  define m where "m = min i j"
  have m: "m < length exif" using assms(3,7) by (simp add: m_def)
  have pre: "list_all (skipped L) (take m exif)"
  proof -
    have "skipped L (exif ! n)" if "n < m" for n
    proof -
      from that have "n < length exif" "n \<noteq> i" "n \<noteq> j" using m by (auto simp: m_def)
      with assms(11) have "\<not> recognized L (fst (exif ! n))" by blast
      then show ?thesis by (cases "exif ! n") (auto simp: skipped_def split: exif_value.splits)
    qed
    then show ?thesis using m by (simp add: list_all_length)
  qed
  have split: "exif = take m exif @ exif ! m # drop (Suc m) exif"
    using m by (simp add: id_take_nth_drop)
  have "scan_exif L exif = Inr (Some (if i < j then t_orig else t_gen))"
  proof (cases "i < j")
    case True
    then have "exif ! m = (ko, Str so)" using assms(4) by (simp add: m_def)
    with split have "exif = take m exif @ (ko, Str so) # drop (Suc m) exif" by simp
    then have "scan_exif L exif = Inr (Some t_orig)"
      using scan_exif_first [OF pre ro assms(6)] by metis
    with True show ?thesis by simp
  next
    case False
    then have "exif ! m = (kg, Str sg)" using assms(8) ij by (simp add: m_def min_def)
    with split have "exif = take m exif @ (kg, Str sg) # drop (Suc m) exif" by simp
    then have "scan_exif L exif = Inr (Some t_gen)"
      using scan_exif_first [OF pre rg assms(10)] by metis
    with False show ?thesis by simp
  qed
  with assms(1,2) show ?thesis by (rule resolve_scan)
qed

text \<open>
  The amended statement at the photograph: \<^verbatim>\<open>DateTimeOriginal\<close> is at position 2, \<^verbatim>\<open>DateTime\<close> at
  position 1.
\<close>

theorem first_recognized_tag_wins_witness:
  "get_image_creation_time example_lib camera_photo = Inr ((2021, 5, 1, 10, 0, 0, 0), ''EXIF'')"
proof -
  let ?exif = "[(271, Str ''Canon''), (306, Str ''2021:05:01 10:00:00''),
                (36867, Str ''2019:03:04 05:06:07'')] :: exif_dict"
  let ?img = "\<lparr>getexif = Inr (Some ?exif), image_to_string = Inr ''page one''\<rparr>"
  have h1: "image_open camera_photo = Inr ?img" by (simp add: camera_photo_def)
  have h2: "getexif ?img = Inr (Some ?exif)" by simp
  have h3: "2 < length ?exif" by simp
  have h4: "?exif ! 2 = (36867, Str ''2019:03:04 05:06:07'')" by simp
  have h5: "TAGS example_lib 36867 = Some ''DateTimeOriginal''" by (simp add: example_defs)
  have h6: "strptime example_lib ''2019:03:04 05:06:07'' = Some (2019, 3, 4, 5, 6, 7, 0)"
    by (simp add: example_defs)
  have h7: "1 < length ?exif" by simp
  have h8: "?exif ! 1 = (306, Str ''2021:05:01 10:00:00'')" by simp
  have h9: "TAGS example_lib 306 = Some ''DateTime''" by (simp add: example_defs)
  have h10: "strptime example_lib ''2021:05:01 10:00:00'' = Some (2021, 5, 1, 10, 0, 0, 0)"
    by (simp add: example_defs)
  have h11: "\<forall>n<length ?exif. n \<noteq> 2 \<and> n \<noteq> 1 \<longrightarrow> \<not> recognized example_lib (fst (?exif ! n))"
    by (auto simp: less_Suc_eq recognized_def tag_of_def example_defs)
  show ?thesis
    using first_recognized_tag_wins [OF h1 h2 h3 h4 h5 h6 h7 h8 h9 h10 h11] by simp
qed



text \<open>
  Claim C4 says that the resolver returns a pair on every existing, readable file. The scan
  below exists, is readable and decodes; it carries no metadata, and its modification time
  cannot be converted by \<^verbatim>\<open>datetime.fromtimestamp\<close>. Line 35 is outside the \<^verbatim>\<open>try\<close>, so its
  exception reaches the caller.
\<close>

theorem existing_file_raises:
  "image_open far_future_png = Inr \<lparr>getexif = Inr None, image_to_string = Inr ''page five''\<rparr>
   \<and> get_image_creation_time example_lib far_future_png
       = Inl (ValueError ''year 60000 is out of range'')"
  by (simp add: resolver_defs far_future_png_def)

text \<open>
  Claim C4, amended: on a file for which line 35 succeeds (\<^verbatim>\<open>stat\<close> answers and
  \<^verbatim>\<open>datetime.fromtimestamp\<close> converts the modification time) the program returns a pair of a
  timestamp and a provenance label, whatever \<^verbatim>\<open>Image.open\<close>, \<^verbatim>\<open>_getexif\<close> and the parser do:
  every failure of the metadata is absorbed by the fallback. The only exception that reaches
  the caller is that of line 35.
\<close>

theorem resolve_returns_when_mtime_converts:
  "(stat_mtime p = Inr m \<longrightarrow>
      (\<exists>t src. get_image_creation_time L p = Inr (t, src) \<and> src \<in> {''EXIF'', ''mtime''}))
   \<and> (get_image_creation_time L p = Inl e \<longrightarrow> stat_mtime p = Inl e)"
  by (simp add: get_image_creation_time_def split: sum.splits option.splits)

text \<open>
  Both halves: a file that does not decode and has a modification time, and the scan whose
  modification time does not convert.
\<close>

theorem resolve_returns_when_mtime_converts_witness:
  "stat_mtime broken_jpeg = Inr (2020, 6, 1, 12, 0, 0, 0)
   \<and> (\<exists>t src. get_image_creation_time example_lib broken_jpeg = Inr (t, src)
         \<and> src \<in> {''EXIF'', ''mtime''})
   \<and> get_image_creation_time example_lib far_future_png
       = Inl (ValueError ''year 60000 is out of range'')
   \<and> stat_mtime far_future_png = Inl (ValueError ''year 60000 is out of range'')"
proof -
  have m: "stat_mtime broken_jpeg = Inr (2020, 6, 1, 12, 0, 0, 0)"
    by (simp add: broken_jpeg_def)
  have e: "get_image_creation_time example_lib far_future_png
       = Inl (ValueError ''year 60000 is out of range'')"
    by (simp add: resolver_defs far_future_png_def)
  show ?thesis
    using m e
      resolve_returns_when_mtime_converts
        [of broken_jpeg "(2020, 6, 1, 12, 0, 0, 0)" example_lib "ValueError []"]
      resolve_returns_when_mtime_converts
        [of far_future_png "(0, 0, 0, 0, 0, 0, 0)" example_lib
            "ValueError ''year 60000 is out of range''"]
    by simp
qed

text \<open>
  Claim C10 says that after a recognized tag whose value fails to parse the scan goes on to a
  later recognized tag. When the value is not a string, \<^verbatim>\<open>strptime\<close> raises \<^verbatim>\<open>TypeError\<close>,
  which only the outer handler catches: the later tag is not looked at and the modification
  time is returned.
\<close>

theorem non_string_value_stops_scan:
  "recognized example_lib 306
   \<and> metadata wrong_type_jpg = [(306, NonStr), (36867, Str ''2019:03:04 05:06:07'')]
   \<and> recognized example_lib 36867
   \<and> strptime example_lib ''2019:03:04 05:06:07'' = Some (2019, 3, 4, 5, 6, 7, 0)
   \<and> get_image_creation_time example_lib wrong_type_jpg
       \<noteq> Inr ((2019, 3, 4, 5, 6, 7, 0), ''EXIF'')
   \<and> get_image_creation_time example_lib wrong_type_jpg
       = Inr ((2022, 1, 1, 0, 0, 0, 0), ''mtime'')"
  by (simp add: resolver_defs example_defs wrong_type_jpg_def metadata_def)

text \<open>
  Claim C10, amended: a recognized tag whose value is a string that does not parse does not
  end the scan. When the entries before a later recognized tag with a parsable string all
  let the scan go on (none of them is a recognized tag with a parsable string or with a value
  that is not a string), the program returns the instant of that later tag with provenance
  \<^verbatim>\<open>EXIF\<close>.
\<close>

theorem scan_continues_after_unparsable:
  assumes "image_open p = Inr img"
    and "getexif img = Inr (Some (pre @ (k1, Str bad) # mid @ (k2, Str good) # post))"
    and "list_all (skipped L) pre" "list_all (skipped L) mid"
    and "recognized L k1" "strptime L bad = None"
    and "recognized L k2" "strptime L good = Some t"
  shows "get_image_creation_time L p = Inr (t, ''EXIF'')"
proof -
  have "list_all (skipped L) (pre @ (k1, Str bad) # mid)"
    using assms(3,4,6) by (simp add: skipped_def)
  then have "scan_exif L ((pre @ (k1, Str bad) # mid) @ (k2, Str good) # post) = Inr (Some t)"
    using assms(7,8) by (rule scan_exif_first)
  then show ?thesis
    using assms(1,2) by (intro resolve_scan) auto
qed

text \<open>
  A camera with an unset clock writes \<^verbatim>\<open>0000:00:00 00:00:00\<close> under \<^verbatim>\<open>DateTime\<close>; the scan
  goes on to \<^verbatim>\<open>DateTimeOriginal\<close>.
\<close>

theorem scan_continues_after_unparsable_witness:
  "strptime example_lib ''0000:00:00 00:00:00'' = None
   \<and> get_image_creation_time example_lib unset_clock_jpg
       = Inr ((2019, 3, 4, 5, 6, 7, 0), ''EXIF'')"
proof -
  let ?img = "\<lparr>getexif = Inr (Some ([] @ (306, Str ''0000:00:00 00:00:00'') # []
                  @ (36867, Str ''2019:03:04 05:06:07'') # [])),
               image_to_string = Inr ''page two''\<rparr>"
  have h1: "image_open unset_clock_jpg = Inr ?img" by (simp add: unset_clock_jpg_def)
  have h2: "getexif ?img = Inr (Some ([] @ (306, Str ''0000:00:00 00:00:00'') # []
                  @ (36867, Str ''2019:03:04 05:06:07'') # []))" by simp
  have h3: "list_all (skipped example_lib) []" by simp
  have h4: "recognized example_lib 306" "recognized example_lib 36867"
    by (simp_all add: recognized_def tag_of_def example_defs)
  have h5: "strptime example_lib ''0000:00:00 00:00:00'' = None" by (simp add: example_defs)
  have h6: "strptime example_lib ''2019:03:04 05:06:07'' = Some (2019, 3, 4, 5, 6, 7, 0)"
    by (simp add: example_defs)
  show ?thesis
    using h5 scan_continues_after_unparsable [OF h1 h2 h3 h3 h4(1) h5 h4(2) h6] by simp
qed

section \<open>Enumeration and ordering: claims C5 and C7\<close>

text \<open>
  Claim C5: the list returned by \<^verbatim>\<open>get_image_files\<close> is in ascending order of the resolved
  timestamps, and the sort is stable: for every timestamp, the entries that carry it are in
  the same relative order as in the directory enumeration.
\<close>

theorem sorted_ascending_and_stable:
  assumes "get_image_files L d s = (Inr ps, s1)" "iterdir d = Inr listing"
  shows "(\<forall>p\<in>set ps. timestamp_of L p \<noteq> None)
       \<and> sorted (map (\<lambda>p. the (timestamp_of L p)) ps)
       \<and> (\<forall>k. filter (\<lambda>p. timestamp_of L p = Some k) ps
              = filter (\<lambda>p. supported p \<and> timestamp_of L p = Some k) listing)"
proof -
  let ?key = "\<lambda>p. the (timestamp_of L p)"
  from get_image_files_result [OF assms(1)] assms(2)
  have ps: "ps = sort_key ?key (filter supported listing)"
    and some: "\<forall>p\<in>set ps. timestamp_of L p \<noteq> None"
    by (auto simp: collect_images_filter)
  have "sorted (map ?key ps)" by (simp add: ps)
  moreover have "filter (\<lambda>p. timestamp_of L p = Some k) ps
      = filter (\<lambda>p. supported p \<and> timestamp_of L p = Some k) listing" for k
  proof -
    have eq: "(timestamp_of L p = Some k) = (?key p = k)" if "p \<in> set ps" for p
      using some that by auto
    have "filter (\<lambda>p. timestamp_of L p = Some k) ps = filter (\<lambda>p. ?key p = k) ps"
      using eq by (intro filter_cong) auto
    also have "\<dots> = filter (\<lambda>p. ?key p = k) (filter supported listing)"
      unfolding ps by (rule sort_key_stable)
    also have "\<dots> = filter (\<lambda>p. timestamp_of L p = Some k) (filter supported listing)"
      using eq by (intro filter_cong) (auto simp: ps)
    finally show ?thesis by (simp add: conj_commute)
  qed
  ultimately show ?thesis using some by blast
qed

text \<open>
  A folder in which the scan and the file that does not decode carry the same timestamp and
  are enumerated after the photograph, which is newer.
\<close>

theorem sorted_ascending_and_stable_witness:
  "get_image_files example_lib mixed_folder fresh =
     (Inr [scan_png, broken_jpeg, camera_photo],
      fresh\<lparr>resolutions := resolutions fresh @ [''IMG_0001.JPG'', ''a.png'', ''broken.jpeg'']\<rparr>)
   \<and> sorted (map (\<lambda>p. the (timestamp_of example_lib p)) [scan_png, broken_jpeg, camera_photo])
   \<and> filter (\<lambda>p. timestamp_of example_lib p = Some (2020, 6, 1, 12, 0, 0, 0))
        [scan_png, broken_jpeg, camera_photo]
      = filter (\<lambda>p. supported p \<and> timestamp_of example_lib p = Some (2020, 6, 1, 12, 0, 0, 0))
          [camera_photo, scan_png, broken_jpeg]"
proof -
  have h1: "get_image_files example_lib mixed_folder fresh =
     (Inr [scan_png, broken_jpeg, camera_photo],
      fresh\<lparr>resolutions := resolutions fresh @ [''IMG_0001.JPG'', ''a.png'', ''broken.jpeg'']\<rparr>)"
    by (rule mixed_files)
  have h2: "iterdir mixed_folder = Inr [camera_photo, scan_png, broken_jpeg]"
    by (simp add: mixed_folder_def)
  from sorted_ascending_and_stable [OF h1 h2] h1 show ?thesis by blast
qed

text \<open>
  Claim C7 says that only files are selected and every subdirectory is left out. The
  program looks at the name alone: a subdirectory named \<^verbatim>\<open>scans.png\<close> is a candidate, and
  the run prints an error line for it.
\<close>

theorem subdirectory_selected:
  "is_dir scans_dir
   \<and> iterdir scans_folder = Inr [subdir, scans_dir]
   \<and> fst (get_image_files example_lib scans_folder fresh) = Inr [scans_dir]
   \<and> console (snd (main example_lib scans_folder fresh))
       = [''Error processing scans.png: [Errno 21] Is a directory'']"
  by (simp add: scans_files main_def process_images_def process_one_def resolve_scans_dir
      fresh_def)
     (simp add: scans_dir_def scans_folder_def report_error_def error_line_def)

text \<open>
  Claim C7, amended: the candidates are exactly the directory entries, files and
  subdirectories alike, whose suffix in lower case is one of \<^verbatim>\<open>.png\<close>, \<^verbatim>\<open>.jpg\<close>, \<^verbatim>\<open>.jpeg\<close>,
  \<^verbatim>\<open>.tiff\<close>, \<^verbatim>\<open>.bmp\<close>; every other entry is left out.
\<close>

theorem candidates_by_extension:
  assumes "get_image_files L d s = (Inr ps, s1)" "iterdir d = Inr listing"
  shows "mset ps = mset (filter supported listing)"
  using get_image_files_result [OF assms(1)] assms(2)
  by (auto simp: collect_images_filter)

text \<open>
  The folder with \<^verbatim>\<open>a.png\<close>, \<^verbatim>\<open>b.txt\<close>, \<^verbatim>\<open>c.JPG\<close> and the subdirectory \<^verbatim>\<open>d\<close>.
\<close>

theorem candidates_by_extension_witness:
  "get_image_files example_lib spec_folder fresh
     = (Inr [unset_clock_jpg, scan_png],
        fresh\<lparr>resolutions := resolutions fresh @ [''a.png'', ''c.JPG'']\<rparr>)
   \<and> mset [unset_clock_jpg, scan_png]
       = mset (filter supported [scan_png, notes_txt, unset_clock_jpg, subdir])
   \<and> filter supported [scan_png, notes_txt, unset_clock_jpg, subdir] = [scan_png, unset_clock_jpg]"
proof -
  have h1: "get_image_files example_lib spec_folder fresh
     = (Inr [unset_clock_jpg, scan_png],
        fresh\<lparr>resolutions := resolutions fresh @ [''a.png'', ''c.JPG'']\<rparr>)"
    by (rule spec_files)
  have h2: "iterdir spec_folder = Inr [scan_png, notes_txt, unset_clock_jpg, subdir]"
    by (simp add: spec_folder_def)
  from candidates_by_extension [OF h1 h2] h1 show ?thesis
    by (simp add: supported_examples)
qed

section \<open>The batch: claims C2, C6, C8 and C9\<close>






text \<open>
  Claim C8: when no directory entry is a candidate, the run ends normally, prints the one
  line saying so, and leaves the output file with the content it had (empty when the file did
  not exist).
\<close>

theorem empty_batch:
  assumes "iterdir d = Inr listing" "filter supported listing = []"
  shows "main L d s = (Inr (), s\<lparr>output_file := Some (content s),
            console := console s @ [''No supported image files found in '' @ folder_path d]\<rparr>)"
  using assms by (simp add: main_def process_images_def get_image_files_def collect_images_filter)

theorem empty_batch_witness:
  "filter supported [notes_txt, subdir] = []
   \<and> main example_lib no_images_folder earlier
       = (Inr (), \<lparr>output_file = Some ''earlier text'',
                   console = [''No supported image files found in images''],
                   resolutions = []\<rparr>)
   \<and> main example_lib no_images_folder fresh
       = (Inr (), \<lparr>output_file = Some [],
                   console = [''No supported image files found in images''],
                   resolutions = []\<rparr>)"
proof -
  have h1: "iterdir no_images_folder = Inr [notes_txt, subdir]"
    by (simp add: no_images_folder_def)
  have h2: "filter supported [notes_txt, subdir] = []"
    by (simp add: supported_examples)
  from empty_batch [OF h1 h2, of example_lib earlier]
    empty_batch [OF h1 h2, of example_lib fresh] h2
  show ?thesis
    by (simp add: earlier_def fresh_def content_def no_images_folder_def)
qed

text \<open>
  Claim C9: every write keeps the content of the output file as a prefix, and two runs over
  the same folder leave the content the file had, followed by the output of the batch, twice.
\<close>

theorem output_append_only:
  assumes "main L d s = (r1, s1)" "main L d s1 = (r2, s2)"
  shows "(\<forall>p st c. output_file st = Some c \<longrightarrow>
            output_file (process_one L p st) = Some (c @ written L p))
       \<and> output_file s1 = Some (content s @ batch_output L d)
       \<and> output_file s2 = Some (content s @ batch_output L d @ batch_output L d)"
proof -
  define B where "B = (case fst (get_image_files L d s) of
                  Inl e \<Rightarrow> [] | Inr ps \<Rightarrow> concat (map (written L) ps))"
  have B: "(case fst (get_image_files L d st) of
                  Inl e \<Rightarrow> [] | Inr ps \<Rightarrow> concat (map (written L) ps)) = B" for st
    unfolding B_def using get_image_files_indep [of L d st s] by simp
  have run: "output_file (snd (main L d st)) = Some (content st @ B)" for st
    using process_images_output [of "st\<lparr>output_file := Some (content st)\<rparr>" "content st" L d]
    by (simp add: main_def B)
  have "batch_output L d = B"
    using run [of "\<lparr>output_file = None, console = [], resolutions = []\<rparr>"]
    by (simp add: batch_output_def content_def)
  with run have run': "output_file (snd (main L d st)) = Some (content st @ batch_output L d)" for st
    by simp
  from run' [of s] assms(1) have 1: "output_file s1 = Some (content s @ batch_output L d)" by simp
  then have "content s1 = content s @ batch_output L d" by (simp add: content_def)
  with run' [of s1] assms(2)
  have 2: "output_file s2 = Some (content s @ batch_output L d @ batch_output L d)" by simp
  from 1 2 show ?thesis by (simp add: process_one_output_file)
qed

theorem output_append_only_witness:
  "output_file (snd (main example_lib mixed_folder earlier))
     = Some (''earlier text''
         @ block ''a.png'' ''mtime'' ''2020-06-01 12:00:00'' ''scanned page''
         @ block ''IMG_0001.JPG'' ''EXIF'' ''2021-05-01 10:00:00'' ''page one'')
   \<and> output_file (snd (main example_lib mixed_folder (snd (main example_lib mixed_folder earlier))))
     = Some (''earlier text''
         @ block ''a.png'' ''mtime'' ''2020-06-01 12:00:00'' ''scanned page''
         @ block ''IMG_0001.JPG'' ''EXIF'' ''2021-05-01 10:00:00'' ''page one''
         @ block ''a.png'' ''mtime'' ''2020-06-01 12:00:00'' ''scanned page''
         @ block ''IMG_0001.JPG'' ''EXIF'' ''2021-05-01 10:00:00'' ''page one'')"
proof -
  obtain r1 s1 where h1: "main example_lib mixed_folder earlier = (r1, s1)" by force
  obtain r2 s2 where h2: "main example_lib mixed_folder s1 = (r2, s2)" by force
  from output_append_only [OF h1 h2] h1 h2 show ?thesis
    by (simp add: mixed_batch_output earlier_def content_def)
qed

end
